theory Spec2Isabelle
  imports Main "HOL-Library.AList"
begin

section \<open>Token lifecycle of rest\_framework\_simplejwt (tokens.py)\<close>

text \<open>
  A shallow embedding of \<^verbatim>\<open>src/rest_framework_simplejwt/tokens.py\<close>: the class
  \<^verbatim>\<open>Token\<close>, the mixin \<^verbatim>\<open>BlacklistMixin\<close> and the variants \<^verbatim>\<open>SlidingToken\<close>,
  \<^verbatim>\<open>RefreshToken\<close> and \<^verbatim>\<open>AccessToken\<close>.

  Every \<^verbatim>\<open>raise\<close> of the source is an \<open>Inl\<close> result. The reads of the outside world
  that the source performs are explicit arguments: \<open>now\<close> is the value returned by the
  call of \<^verbatim>\<open>aware_utcnow()\<close>, \<open>uuid4_hex\<close> the value of \<^verbatim>\<open>uuid4().hex\<close>, \<open>decode\<close>
  the method \<^verbatim>\<open>token_backend.decode\<close>, \<open>UUID\<close> the constructor \<^verbatim>\<open>uuid.UUID(hex=...)\<close>
  of the standard library and \<open>blacklist\<close> the rows of the blacklist table.
\<close>

subsection \<open>Values, payloads, errors\<close>

text \<open>
  Python values that occur as claim values and as user identifiers. \<open>PyObj\<close> stands for
  an object of any other type (a nested container, a UUID, ...) and carries the text
  that \<^verbatim>\<open>text_type\<close> renders it to. Floats are not represented.
\<close>

datatype pyval = PyNone | PyBool bool | PyInt int | PyStr string | PyObj string

text \<open>
  A payload is a Python dict: an association list in insertion order. Item assignment
  \<^verbatim>\<open>d[k] = v\<close> is \<^const>\<open>AList.update\<close> (an existing key keeps its position, a new key
  is appended), lookup is \<^const>\<open>map_of\<close>.
\<close>

type_synonym payload = "(string \<times> pyval) list"

text \<open>
  A \<^verbatim>\<open>datetime\<close> is the number of microseconds since the epoch (UTC), a
  \<^verbatim>\<open>timedelta\<close> a number of microseconds. The range limits of Python's
  \<^verbatim>\<open>datetime\<close> (years 1 to 9999) are left out.
\<close>

type_synonym datetime = int
type_synonym timedelta = int

text \<open>A row key of the revocation tables: the integer value of a \<^verbatim>\<open>UUID\<close>.\<close>

type_synonym uuid = nat

datatype error =
    TokenError string
  | TypeError
  | KeyError string
  | AttributeError
  | ValueError
  | DoesNotExist

subsection \<open>Settings and the helpers of utils.py\<close>

record api_settings =
  TOKEN_TYPE_CLAIM :: string
  USER_ID_FIELD :: string
  USER_ID_CLAIM :: string
  SLIDING_TOKEN_REFRESH_EXP_CLAIM :: string
  ACCESS_TOKEN_LIFETIME :: timedelta
  REFRESH_TOKEN_LIFETIME :: timedelta
  SLIDING_TOKEN_LIFETIME :: timedelta
  SLIDING_TOKEN_REFRESH_LIFETIME :: timedelta

text \<open>
  Modelled from the spec: \<^verbatim>\<open>utils.datetime_to_epoch\<close> is not among the sources. The
  spec has \<^verbatim>\<open>set_exp\<close> convert a time "to an integer epoch timestamp" in "integer
  epoch seconds": the whole seconds since the epoch.
\<close>

definition datetime_to_epoch :: "datetime \<Rightarrow> int" where
  "datetime_to_epoch dt = dt div 1000000"

text \<open>
  Modelled from the spec: \<^verbatim>\<open>utils.datetime_from_epoch\<close> is not among the sources. It
  reads "integer epoch seconds" back as a time. Python's \<^verbatim>\<open>bool\<close> is a subclass of
  \<^verbatim>\<open>int\<close>; a value that is no number is a \<^verbatim>\<open>TypeError\<close>.
\<close>

fun datetime_from_epoch :: "pyval \<Rightarrow> error + datetime" where
  "datetime_from_epoch (PyInt ts) = Inr (ts * 1000000)"
| "datetime_from_epoch (PyBool b) = Inr (if b then 1000000 else 0)"
| "datetime_from_epoch _ = Inl TypeError"

text \<open>\<^verbatim>\<open>format_lazy(_("...'{}'..."), claim)\<close>: the claim name between the two parts of the message.\<close>

definition format_lazy :: "string \<Rightarrow> string \<Rightarrow> string \<Rightarrow> string" where
  "format_lazy pre post claim = pre @ claim @ post"

definition msg_no_claim :: "string \<Rightarrow> string" where
  "msg_no_claim claim = format_lazy (''Token has no '' @ [CHR 0x27]) ([CHR 0x27] @ '' claim'') claim"

definition msg_expired :: "string \<Rightarrow> string" where
  "msg_expired claim = format_lazy (''Token '' @ [CHR 0x27]) ([CHR 0x27] @ '' claim has expired'') claim"

subsection \<open>class Token\<close>

text \<open>The class attributes of a variant; both are \<^verbatim>\<open>None\<close> in the base class.\<close>

record token_class =
  token_type :: "string option"
  lifetime :: "timedelta option"

text \<open>An instance: the class attributes and the three attributes set by \<^verbatim>\<open>__init__\<close>.\<close>

record Token = token_class +
  token :: "string option"
  current_time :: datetime
  payload :: payload

definition setitem :: "Token \<Rightarrow> string \<Rightarrow> pyval \<Rightarrow> Token" where
  "setitem self key v = self\<lparr>payload := AList.update key v (payload self)\<rparr>"

definition getitem :: "Token \<Rightarrow> string \<Rightarrow> error + pyval" where
  "getitem self key =
     (case map_of (payload self) key of None \<Rightarrow> Inl (KeyError key) | Some v \<Rightarrow> Inr v)"

definition contains :: "Token \<Rightarrow> string \<Rightarrow> bool" where
  "contains self key = (key \<in> set (map fst (payload self)))"

text \<open>
  \<^verbatim>\<open>set_exp(self, claim='exp', from_time=None, lifetime=None)\<close>. The two optional
  arguments default to the instance's captured time and to the variant's lifetime;
  adding \<^verbatim>\<open>None\<close> to a time is a \<^verbatim>\<open>TypeError\<close>.
\<close>

definition set_exp :: "Token \<Rightarrow> string \<Rightarrow> datetime option \<Rightarrow> timedelta option \<Rightarrow> error + Token" where
  "set_exp self claim from_time_arg lifetime_arg =
     (let from_time = (case from_time_arg of None \<Rightarrow> current_time self | Some t \<Rightarrow> t);
          lifetime_opt = (case lifetime_arg of None \<Rightarrow> lifetime self | Some l \<Rightarrow> Some l)
      in case lifetime_opt of
           None \<Rightarrow> Inl TypeError
         | Some l \<Rightarrow> Inr (setitem self claim (PyInt (datetime_to_epoch (from_time + l)))))"

text \<open>\<^verbatim>\<open>check_exp(self, claim='exp', current_time=None)\<close>.\<close>

definition check_exp :: "Token \<Rightarrow> string \<Rightarrow> datetime option \<Rightarrow> error + unit" where
  "check_exp self claim current_time_arg =
     (let now = (case current_time_arg of None \<Rightarrow> current_time self | Some t \<Rightarrow> t)
      in case map_of (payload self) claim of
           None \<Rightarrow> Inl (TokenError (msg_no_claim claim))
         | Some claim_value \<Rightarrow>
             (case datetime_from_epoch claim_value of
                Inl e \<Rightarrow> Inl e
              | Inr claim_time \<Rightarrow>
                  if claim_time \<le> now then Inl (TokenError (msg_expired claim))
                  else Inr ()))"

text \<open>
  \<^verbatim>\<open>Token.__init__(self, token=None)\<close> for a class with the attributes \<open>cls\<close>.
  \<open>decode token\<close> is \<open>Inl reason\<close> when the backend raises \<^verbatim>\<open>TokenBackendError\<close>.
\<close>

definition Token_init ::
  "api_settings \<Rightarrow> (string \<Rightarrow> string + payload) \<Rightarrow> datetime \<Rightarrow> string \<Rightarrow>
   token_class \<Rightarrow> string option \<Rightarrow> error + Token" where
  "Token_init st decode now uuid4_hex cls token_arg =
     (case (token_type cls, lifetime cls) of
        (Some tt, Some lt) \<Rightarrow>
          (case token_arg of
             Some encoded \<Rightarrow>
               (case decode encoded of
                  Inl reason \<Rightarrow> Inl (TokenError ''Token is invalid or expired'')
                | Inr decoded \<Rightarrow>
                    (let self = \<lparr>token_type = Some tt, lifetime = Some lt, token = token_arg,
                                 current_time = now, payload = decoded\<rparr>
                     in case check_exp self ''exp'' None of
                          Inl e \<Rightarrow> Inl e
                        | Inr _ \<Rightarrow>
                            (case map_of (payload self) (TOKEN_TYPE_CLAIM st) of
                               None \<Rightarrow> Inl (TokenError ''Token has no type'')
                             | Some token_type_claim \<Rightarrow>
                                 if PyStr tt \<noteq> token_type_claim
                                 then Inl (TokenError ''Token has wrong type'')
                                 else if ''jti'' \<notin> set (map fst (payload self))
                                 then Inl (TokenError ''Token has no id'')
                                 else Inr self)))
           | None \<Rightarrow>
               set_exp
                 \<lparr>token_type = Some tt, lifetime = Some lt, token = None, current_time = now,
                  payload = AList.update ''jti'' (PyStr uuid4_hex) [(TOKEN_TYPE_CLAIM st, PyStr tt)]\<rparr>
                 ''exp'' (Some now) (Some lt))
      | _ \<Rightarrow> Inl (TokenError ''Cannot create token with no type or lifetime''))"

text \<open>\<^verbatim>\<open>isinstance(user_id, int)\<close>; a \<^verbatim>\<open>bool\<close> is an \<^verbatim>\<open>int\<close> in Python.\<close>

fun isinstance_int :: "pyval \<Rightarrow> bool" where
  "isinstance_int (PyInt n) = True"
| "isinstance_int (PyBool b) = True"
| "isinstance_int _ = False"

fun digits :: "nat \<Rightarrow> string" where
  "digits n =
     (if n < 10 then [char_of (48 + n)] else digits (n div 10) @ [char_of (48 + n mod 10)])"

text \<open>\<^verbatim>\<open>text_type(user_id)\<close>: the text of a value.\<close>

fun text_type :: "pyval \<Rightarrow> string" where
  "text_type PyNone = ''None''"
| "text_type (PyBool b) = (if b then ''True'' else ''False'')"
| "text_type (PyInt n) = (if n < 0 then ''-'' @ digits (nat (- n)) else digits (nat n))"
| "text_type (PyStr s) = s"
| "text_type (PyObj s) = s"

text \<open>
  \<^verbatim>\<open>Token.for_user(cls, user)\<close>. A user is the mapping from attribute names to values
  that \<^verbatim>\<open>getattr\<close> reads; \<open>cls_call\<close> is the result of the call \<^verbatim>\<open>cls()\<close>.
\<close>

definition for_user ::
  "api_settings \<Rightarrow> (error + Token) \<Rightarrow> (string \<Rightarrow> pyval option) \<Rightarrow> error + Token" where
  "for_user st cls_call user =
     (case user (USER_ID_FIELD st) of
        None \<Rightarrow> Inl AttributeError
      | Some user_id \<Rightarrow>
          (let user_id' = (if \<not> isinstance_int user_id then PyStr (text_type user_id) else user_id)
           in case cls_call of
                Inl e \<Rightarrow> Inl e
              | Inr tok \<Rightarrow> Inr (setitem tok (USER_ID_CLAIM st) user_id')))"

subsection \<open>class BlacklistMixin\<close>

text \<open>
  What the mixin reads from outside: whether the app
  \<^verbatim>\<open>rest_framework_simplejwt.token_blacklist\<close> is installed (the mixin's methods are
  defined only then), the constructor \<^verbatim>\<open>UUID(hex=...)\<close> of the standard library, and
  the blacklist table, one entry per row holding the \<^verbatim>\<open>jti\<close> of the row's token.
\<close>

record revocation =
  installed :: bool
  UUID :: "pyval \<Rightarrow> error + uuid"
  blacklist :: "uuid list"

text \<open>
  Modelled from the spec: \<^verbatim>\<open>token_blacklist/models.py\<close> is not among the sources. The
  spec's ledger answers \<^verbatim>\<open>is_blacklisted(jti)\<close>, one entry per token identifier:
  \<^verbatim>\<open>BlacklistedToken.objects.get(token__jti=jti)\<close> returns the row of a blacklisted
  identifier and raises \<^verbatim>\<open>DoesNotExist\<close> for any other.
\<close>

definition objects_get :: "uuid list \<Rightarrow> uuid \<Rightarrow> error + uuid" where
  "objects_get rows jti = (if jti \<in> set rows then Inr jti else Inl DoesNotExist)"

definition check_blacklist :: "revocation \<Rightarrow> Token \<Rightarrow> error + unit" where
  "check_blacklist rv self =
     (case map_of (payload self) ''jti'' of
        None \<Rightarrow> Inl (KeyError ''jti'')
      | Some hex \<Rightarrow>
          (case UUID rv hex of
             Inl e \<Rightarrow> Inl e
           | Inr jti \<Rightarrow>
               (case objects_get (blacklist rv) jti of
                  Inr _ \<Rightarrow> Inl (TokenError ''Token is blacklisted'')
                | Inl DoesNotExist \<Rightarrow> Inr ()
                | Inl e \<Rightarrow> Inl e)))"

text \<open>
  \<^verbatim>\<open>BlacklistMixin.__init__\<close>; without the app the mixin defines nothing and
  \<^verbatim>\<open>Token.__init__\<close> is inherited.
\<close>

definition BlacklistMixin_init ::
  "revocation \<Rightarrow> api_settings \<Rightarrow> (string \<Rightarrow> string + payload) \<Rightarrow> datetime \<Rightarrow> string \<Rightarrow>
   token_class \<Rightarrow> string option \<Rightarrow> error + Token" where
  "BlacklistMixin_init rv st decode now uuid4_hex cls token_arg =
     (case Token_init st decode now uuid4_hex cls token_arg of
        Inl e \<Rightarrow> Inl e
      | Inr self \<Rightarrow>
          if installed rv \<and> token self \<noteq> None
          then (case check_blacklist rv self of Inl e \<Rightarrow> Inl e | Inr _ \<Rightarrow> Inr self)
          else Inr self)"

text \<open>
  A row of the outstanding-token table, with the fields that
  \<^verbatim>\<open>BlacklistMixin.for_user\<close> passes to \<^verbatim>\<open>OutstandingToken.objects.create\<close>.
\<close>

record outstanding_token =
  row_user :: "string \<Rightarrow> pyval option"
  row_jti :: uuid
  row_token :: string
  created_at :: datetime
  expires_at :: datetime

text \<open>
  Modelled from the spec: \<^verbatim>\<open>token_blacklist/models.py\<close> is not among the sources. The
  spec's \<^verbatim>\<open>record_outstanding\<close> adds a row to the ledger:
  \<^verbatim>\<open>OutstandingToken.objects.create(...)\<close> appends it to the table.
\<close>

definition objects_create :: "outstanding_token list \<Rightarrow> outstanding_token \<Rightarrow> outstanding_token list" where
  "objects_create rows row = rows @ [row]"

text \<open>
  \<^verbatim>\<open>BlacklistMixin.for_user(cls, user)\<close>: the token of \<^verbatim>\<open>Token.for_user\<close>, recorded in
  the outstanding-token table \<open>rows\<close>. \<open>encode\<close> is \<^verbatim>\<open>token_backend.encode\<close>, which
  \<^verbatim>\<open>str(token)\<close> applies to the payload. Without the app the mixin defines nothing and
  \<^verbatim>\<open>Token.for_user\<close> is inherited.
\<close>

definition BlacklistMixin_for_user ::
  "revocation \<Rightarrow> (payload \<Rightarrow> string) \<Rightarrow> api_settings \<Rightarrow> (error + Token) \<Rightarrow>
   (string \<Rightarrow> pyval option) \<Rightarrow> outstanding_token list \<Rightarrow>
   error + (Token \<times> outstanding_token list)" where
  "BlacklistMixin_for_user rv encode st cls_call user rows =
     (case for_user st cls_call user of
        Inl e \<Rightarrow> Inl e
      | Inr tok \<Rightarrow>
          if \<not> installed rv then Inr (tok, rows)
          else
            (case getitem tok ''exp'' of
               Inl e \<Rightarrow> Inl e
             | Inr exp \<Rightarrow>
                 (case getitem tok ''jti'' of
                    Inl e \<Rightarrow> Inl e
                  | Inr jti \<Rightarrow>
                      (case UUID rv jti of
                         Inl e \<Rightarrow> Inl e
                       | Inr jti_uuid \<Rightarrow>
                           (case datetime_from_epoch exp of
                              Inl e \<Rightarrow> Inl e
                            | Inr exp_time \<Rightarrow>
                                Inr (tok,
                                     objects_create rows
                                       \<lparr>row_user = user, row_jti = jti_uuid,
                                        row_token = encode (payload tok),
                                        created_at = current_time tok,
                                        expires_at = exp_time\<rparr>))))))"

subsection \<open>The variants\<close>

definition SlidingToken :: "api_settings \<Rightarrow> token_class" where
  "SlidingToken st = \<lparr>token_type = Some ''sliding'', lifetime = Some (SLIDING_TOKEN_LIFETIME st)\<rparr>"

definition RefreshToken :: "api_settings \<Rightarrow> token_class" where
  "RefreshToken st = \<lparr>token_type = Some ''refresh'', lifetime = Some (REFRESH_TOKEN_LIFETIME st)\<rparr>"

definition AccessToken :: "api_settings \<Rightarrow> token_class" where
  "AccessToken st = \<lparr>token_type = Some ''access'', lifetime = Some (ACCESS_TOKEN_LIFETIME st)\<rparr>"

definition no_copy_claims :: "api_settings \<Rightarrow> string list" where
  "no_copy_claims st = [TOKEN_TYPE_CLAIM st, ''exp'', ''jti'']"

definition SlidingToken_init ::
  "revocation \<Rightarrow> api_settings \<Rightarrow> (string \<Rightarrow> string + payload) \<Rightarrow> datetime \<Rightarrow> string \<Rightarrow>
   string option \<Rightarrow> error + Token" where
  "SlidingToken_init rv st decode now uuid4_hex token_arg =
     (case BlacklistMixin_init rv st decode now uuid4_hex (SlidingToken st) token_arg of
        Inl e \<Rightarrow> Inl e
      | Inr self \<Rightarrow>
          if token self = None
          then set_exp self (SLIDING_TOKEN_REFRESH_EXP_CLAIM st) (Some (current_time self))
                 (Some (SLIDING_TOKEN_REFRESH_LIFETIME st))
          else Inr self)"

definition RefreshToken_init ::
  "revocation \<Rightarrow> api_settings \<Rightarrow> (string \<Rightarrow> string + payload) \<Rightarrow> datetime \<Rightarrow> string \<Rightarrow>
   string option \<Rightarrow> error + Token" where
  "RefreshToken_init rv st decode now uuid4_hex token_arg =
     BlacklistMixin_init rv st decode now uuid4_hex (RefreshToken st) token_arg"

definition AccessToken_init ::
  "api_settings \<Rightarrow> (string \<Rightarrow> string + payload) \<Rightarrow> datetime \<Rightarrow> string \<Rightarrow>
   string option \<Rightarrow> error + Token" where
  "AccessToken_init st decode now uuid4_hex token_arg =
     Token_init st decode now uuid4_hex (AccessToken st) token_arg"

text \<open>
  The loop of \<^verbatim>\<open>RefreshToken.access_token\<close> over \<^verbatim>\<open>self.payload.items()\<close>: a claim
  listed in \<open>no_copy\<close> is skipped, every other one is assigned on \<open>access\<close>.
\<close>

fun copy_claims :: "string list \<Rightarrow> payload \<Rightarrow> Token \<Rightarrow> Token" where
  "copy_claims no_copy [] access = access"
| "copy_claims no_copy ((claim, v) # items) access =
     (if claim \<in> set no_copy then copy_claims no_copy items access
      else copy_claims no_copy items (setitem access claim v))"

text \<open>
  The property \<^verbatim>\<open>RefreshToken.access_token\<close> of the refresh token \<open>self\<close>. \<open>now\<close> and
  \<open>uuid4_hex\<close> are the clock reading and the identifier drawn by the call
  \<^verbatim>\<open>AccessToken()\<close>. The result is the pair of \<open>self\<close> as the property leaves it and
  the new access token.
\<close>

definition access_token ::
  "api_settings \<Rightarrow> (string \<Rightarrow> string + payload) \<Rightarrow> datetime \<Rightarrow> string \<Rightarrow> Token \<Rightarrow>
   error + (Token \<times> Token)" where
  "access_token st decode now uuid4_hex self =
     (case AccessToken_init st decode now uuid4_hex None of
        Inl e \<Rightarrow> Inl e
      | Inr access \<Rightarrow>
          (case set_exp access ''exp'' (Some (current_time self)) None of
             Inl e \<Rightarrow> Inl e
           | Inr access' \<Rightarrow>
               Inr (self, copy_claims (no_copy_claims st) (payload self) access')))"

subsection \<open>Example inputs\<close>

text \<open>Settings with the usual claim names, five-minute and one-day lifetimes.\<close>

definition example_settings :: api_settings where
  "example_settings =
     \<lparr>TOKEN_TYPE_CLAIM = ''token_type'', USER_ID_FIELD = ''id'', USER_ID_CLAIM = ''user_id'',
      SLIDING_TOKEN_REFRESH_EXP_CLAIM = ''refresh_exp'',
      ACCESS_TOKEN_LIFETIME = 300 * 1000000, REFRESH_TOKEN_LIFETIME = 86400 * 1000000,
      SLIDING_TOKEN_LIFETIME = 300 * 1000000, SLIDING_TOKEN_REFRESH_LIFETIME = 86400 * 1000000\<rparr>"

text \<open>Token identifiers: 32 hex digits each, as \<^verbatim>\<open>uuid4().hex\<close> gives them.\<close>

abbreviation (input) hex_0a :: string where
  "hex_0a \<equiv> ''0000000000004000800000000000000a''"

abbreviation (input) hex_0b :: string where
  "hex_0b \<equiv> ''0000000000004000800000000000000b''"

abbreviation (input) hex_1b :: string where
  "hex_1b \<equiv> ''0000000000004000800000000000001b''"

abbreviation (input) hex_0c :: string where
  "hex_0c \<equiv> ''0000000000004000800000000000000c''"

abbreviation (input) hex_0d :: string where
  "hex_0d \<equiv> ''0000000000004000800000000000000d''"

abbreviation (input) hex_0e :: string where
  "hex_0e \<equiv> ''0000000000004000800000000000000e''"

abbreviation (input) hex_0f :: string where
  "hex_0f \<equiv> ''0000000000004000800000000000000f''"

abbreviation (input) hex_ab :: string where
  "hex_ab \<equiv> ''000000000000400080000000000000ab''"

abbreviation (input) hex_cd :: string where
  "hex_cd \<equiv> ''000000000000400080000000000000cd''"

text \<open>
  A backend that knows a handful of signed strings and rejects every other one. The
  times in the examples are around 86100 seconds after the epoch.
\<close>

definition example_tokens :: "(string \<times> payload) list" where
  "example_tokens =
     [(''access-ok'', [(''token_type'', PyStr ''access''), (''exp'', PyInt 86400),
                       (''jti'', PyStr hex_0a), (''user_id'', PyInt 42)]),
      (''refresh-ok'', [(''token_type'', PyStr ''refresh''), (''exp'', PyInt 86400),
                        (''jti'', PyStr hex_0b), (''user_id'', PyInt 42)]),
      (''refresh-revoked'', [(''token_type'', PyStr ''refresh''), (''exp'', PyInt 86400),
                             (''jti'', PyStr hex_1b), (''user_id'', PyInt 7)]),
      (''sliding-ok'', [(''token_type'', PyStr ''sliding''), (''exp'', PyInt 86400),
                        (''jti'', PyStr hex_0c), (''refresh_exp'', PyInt 172800)]),
      (''no-exp'', [(''token_type'', PyStr ''access''), (''jti'', PyStr hex_0d)]),
      (''exp-now'', [(''token_type'', PyStr ''access''), (''exp'', PyInt 86100),
                     (''jti'', PyStr hex_0e)]),
      (''no-type'', [(''exp'', PyInt 86400), (''jti'', PyStr hex_0f)]),
      (''exp-text'', [(''token_type'', PyStr ''access''), (''exp'', PyStr ''86400''),
                      (''jti'', PyStr hex_0a)]),
      (''no-jti'', [(''token_type'', PyStr ''access''), (''exp'', PyInt 86400)])]"

definition example_decode :: "string \<Rightarrow> string + payload" where
  "example_decode encoded =
     (case map_of example_tokens encoded of
        None \<Rightarrow> Inl ''Signature verification failed.''
      | Some claims \<Rightarrow> Inr claims)"

fun hex_digit :: "char \<Rightarrow> nat option" where
  "hex_digit c =
     (let n = of_char c :: nat
      in if 48 \<le> n \<and> n \<le> 57 then Some (n - 48)
         else if 97 \<le> n \<and> n \<le> 102 then Some (n - 87)
         else None)"

fun hex_value :: "nat \<Rightarrow> string \<Rightarrow> nat option" where
  "hex_value acc [] = Some acc"
| "hex_value acc (c # cs) =
     (case hex_digit c of None \<Rightarrow> None | Some d \<Rightarrow> hex_value (16 * acc + d) cs)"

text \<open>An instance of \<^verbatim>\<open>UUID(hex=...)\<close> that reads a string of 32 lower-case hex digits.\<close>

definition example_UUID :: "pyval \<Rightarrow> error + uuid" where
  "example_UUID v =
     (case v of
        PyStr s \<Rightarrow>
          if length s \<noteq> 32 then Inl ValueError
          else (case hex_value 0 s of None \<Rightarrow> Inl ValueError | Some n \<Rightarrow> Inr n)
      | _ \<Rightarrow> Inl AttributeError)"

text \<open>The app is installed and the token with the identifier \<^term>\<open>hex_1b\<close> is blacklisted.\<close>

definition example_revocation :: revocation where
  "example_revocation = \<lparr>installed = True, UUID = example_UUID, blacklist = [302240678275694148452379]\<rparr>"

text \<open>A backend whose \<^verbatim>\<open>encode\<close> returns the same string for every payload.\<close>

definition example_encode :: "payload \<Rightarrow> string" where
  "example_encode claims = ''signed''"

definition example_user :: "string \<Rightarrow> pyval option" where
  "example_user = [''id'' \<mapsto> PyInt 42, ''username'' \<mapsto> PyStr ''alice'']"

text \<open>
  The refresh token decoded from \<open>refresh-ok\<close> at 86100 seconds, and the access token
  derived from it one second later.
\<close>

definition example_refresh :: Token where
  "example_refresh =
     \<lparr>token_type = Some ''refresh'', lifetime = Some 86400000000, token = Some ''refresh-ok'',
      current_time = 86100000000,
      payload = [(''token_type'', PyStr ''refresh''), (''exp'', PyInt 86400),
                 (''jti'', PyStr hex_0b), (''user_id'', PyInt 42)]\<rparr>"

definition example_access :: Token where
  "example_access =
     \<lparr>token_type = Some ''access'', lifetime = Some 300000000, token = None,
      current_time = 86101000000,
      payload = [(''token_type'', PyStr ''access''), (''jti'', PyStr hex_cd),
                 (''exp'', PyInt 86400), (''user_id'', PyInt 42)]\<rparr>"

section \<open>Auxiliary facts\<close>

subsection \<open>The helpers\<close>

lemma datetime_from_epoch_error: "datetime_from_epoch v = Inl e \<Longrightarrow> e = TypeError"
  by (cases v) auto

lemma check_exp_cases:
  "check_exp self claim ct =
     (case map_of (payload self) claim of
        None \<Rightarrow> Inl (TokenError (msg_no_claim claim))
      | Some v \<Rightarrow>
          (case datetime_from_epoch v of
             Inl e \<Rightarrow> Inl TypeError
           | Inr t \<Rightarrow>
               if t \<le> (case ct of None \<Rightarrow> current_time self | Some c \<Rightarrow> c)
               then Inl (TokenError (msg_expired claim)) else Inr ()))"
  unfolding check_exp_def
  by (auto simp: Let_def split: option.splits sum.splits dest: datetime_from_epoch_error)

subsection \<open>Construction\<close>

lemma Token_init_unconfigured:
  "token_type cls = None \<or> lifetime cls = None \<Longrightarrow>
   Token_init st decode now uuid4_hex cls token_arg =
     Inl (TokenError ''Cannot create token with no type or lifetime'')"
  unfolding Token_init_def by (auto split: option.splits)

lemma Token_init_encoded_unfold:
  assumes "token_type cls = Some tt" and "lifetime cls = Some lt"
  shows "Token_init st decode now uuid4_hex cls (Some encoded) =
     (case decode encoded of
        Inl reason \<Rightarrow> Inl (TokenError ''Token is invalid or expired'')
      | Inr p \<Rightarrow>
          (case check_exp \<lparr>token_type = Some tt, lifetime = Some lt, token = Some encoded,
                            current_time = now, payload = p\<rparr> ''exp'' None of
             Inl e \<Rightarrow> Inl e
           | Inr _ \<Rightarrow>
               (case map_of p (TOKEN_TYPE_CLAIM st) of
                  None \<Rightarrow> Inl (TokenError ''Token has no type'')
                | Some w \<Rightarrow>
                    if PyStr tt \<noteq> w then Inl (TokenError ''Token has wrong type'')
                    else if ''jti'' \<notin> fst ` set p then Inl (TokenError ''Token has no id'')
                    else Inr \<lparr>token_type = Some tt, lifetime = Some lt, token = Some encoded,
                              current_time = now, payload = p\<rparr>)))"
  using assms unfolding Token_init_def
  by (simp add: Let_def split: sum.splits option.splits)

lemma Token_init_encoded_Inr:
  assumes "Token_init st decode now uuid4_hex cls (Some encoded) = Inr self"
  shows "decode encoded = Inr (payload self) \<and> token self = Some encoded \<and>
         current_time self = now \<and> token_type self = token_type cls \<and>
         lifetime self = lifetime cls \<and> ''jti'' \<in> fst ` set (payload self)"
proof -
  obtain tt lt where c: "token_type cls = Some tt" "lifetime cls = Some lt"
    using assms Token_init_unconfigured [of cls st decode now uuid4_hex "Some encoded"]
    by (cases "token_type cls"; cases "lifetime cls") auto
  show ?thesis
    using assms unfolding Token_init_encoded_unfold [OF c]
    by (auto split: sum.splits option.splits if_splits simp: c)
qed

lemma Token_init_fresh:
  assumes "token_type cls = Some tt" and "lifetime cls = Some lt"
  shows "Token_init st decode now uuid4_hex cls None =
     Inr \<lparr>token_type = Some tt, lifetime = Some lt, token = None, current_time = now,
          payload = AList.update ''exp'' (PyInt (datetime_to_epoch (now + lt)))
                      (AList.update ''jti'' (PyStr uuid4_hex) [(TOKEN_TYPE_CLAIM st, PyStr tt)])\<rparr>"
  using assms unfolding Token_init_def set_exp_def setitem_def by (simp add: Let_def)

lemma BlacklistMixin_init_Inr:
  "BlacklistMixin_init rv st decode now uuid4_hex cls token_arg = Inr self \<Longrightarrow>
   Token_init st decode now uuid4_hex cls token_arg = Inr self"
  unfolding BlacklistMixin_init_def by (auto split: sum.splits if_splits)

lemma BlacklistMixin_init_fresh:
  "BlacklistMixin_init rv st decode now uuid4_hex cls None =
   Token_init st decode now uuid4_hex cls None"
proof (cases "Token_init st decode now uuid4_hex cls None")
  case (Inl e)
  then show ?thesis by (simp add: BlacklistMixin_init_def)
next
  case (Inr self)
  then have "token self = None"
    unfolding Token_init_def set_exp_def setitem_def
    by (auto split: option.splits simp: Let_def)
  with Inr show ?thesis by (simp add: BlacklistMixin_init_def)
qed

lemma blacklisted_rejected:
  assumes "installed rv"
    and "Token_init st decode now uuid4_hex cls (Some encoded) = Inr self"
    and "map_of (payload self) ''jti'' = Some hex" and "UUID rv hex = Inr jti"
  shows "BlacklistMixin_init rv st decode now uuid4_hex cls (Some encoded) =
     (if jti \<in> set (blacklist rv) then Inl (TokenError ''Token is blacklisted'') else Inr self)"
  using assms Token_init_encoded_Inr [OF assms(2)]
  by (simp add: BlacklistMixin_init_def check_blacklist_def objects_get_def)

lemma SlidingToken_init_encoded:
  "SlidingToken_init rv st decode now uuid4_hex (Some encoded) =
   BlacklistMixin_init rv st decode now uuid4_hex (SlidingToken st) (Some encoded)"
proof (cases "BlacklistMixin_init rv st decode now uuid4_hex (SlidingToken st) (Some encoded)")
  case (Inl e)
  then show ?thesis by (simp add: SlidingToken_init_def)
next
  case (Inr self)
  from Token_init_encoded_Inr [OF BlacklistMixin_init_Inr [OF Inr]]
  have "token self = Some encoded" by simp
  with Inr show ?thesis by (simp add: SlidingToken_init_def)
qed

lemma SlidingToken_init_fresh:
  "SlidingToken_init rv st decode now uuid4_hex None =
     Inr \<lparr>token_type = Some ''sliding'', lifetime = Some (SLIDING_TOKEN_LIFETIME st),
          token = None, current_time = now,
          payload =
            AList.update (SLIDING_TOKEN_REFRESH_EXP_CLAIM st)
              (PyInt (datetime_to_epoch (now + SLIDING_TOKEN_REFRESH_LIFETIME st)))
              (AList.update ''exp'' (PyInt (datetime_to_epoch (now + SLIDING_TOKEN_LIFETIME st)))
                 (AList.update ''jti'' (PyStr uuid4_hex)
                    [(TOKEN_TYPE_CLAIM st, PyStr ''sliding'')]))\<rparr>"
  unfolding SlidingToken_init_def BlacklistMixin_init_fresh
  by (simp add: Token_init_fresh [where tt = "''sliding''" and lt = "SLIDING_TOKEN_LIFETIME st"]
      SlidingToken_def set_exp_def setitem_def)

subsection \<open>Derivation of an access token\<close>

lemma copy_claims_fields:
  "token_type (copy_claims no_copy items access) = token_type access \<and>
   lifetime (copy_claims no_copy items access) = lifetime access \<and>
   token (copy_claims no_copy items access) = token access \<and>
   current_time (copy_claims no_copy items access) = current_time access"
  by (induction no_copy items access rule: copy_claims.induct) (simp_all add: setitem_def)

lemma copy_claims_skipped:
  "claim \<in> set no_copy \<Longrightarrow>
   map_of (payload (copy_claims no_copy items access)) claim = map_of (payload access) claim"
  by (induction no_copy items access rule: copy_claims.induct)
     (auto simp: setitem_def update_conv')

lemma copy_claims_copied:
  "distinct (map fst items) \<Longrightarrow> claim \<notin> set no_copy \<Longrightarrow>
   map_of (payload (copy_claims no_copy items access)) claim =
     (case map_of items claim of None \<Rightarrow> map_of (payload access) claim | Some v \<Rightarrow> Some v)"
proof (induction no_copy items access rule: copy_claims.induct)
  case (1 no_copy access)
  then show ?case by simp
next
  case (2 no_copy c v items access)
  then have absent: "map_of items c = None"
    by (simp add: map_of_eq_None_iff)
  show ?case
  proof (cases "c \<in> set no_copy")
    case True
    with 2 show ?thesis by auto
  next
    case False
    with 2 absent show ?thesis
      by (auto simp: setitem_def update_conv' split: option.splits)
  qed
qed

lemma access_token_unfold:
  "access_token st decode now uuid4_hex self =
     Inr (self,
          copy_claims (no_copy_claims st) (payload self)
            \<lparr>token_type = Some ''access'', lifetime = Some (ACCESS_TOKEN_LIFETIME st),
             token = None, current_time = now,
             payload =
               AList.update ''exp''
                 (PyInt (datetime_to_epoch (current_time self + ACCESS_TOKEN_LIFETIME st)))
                 (AList.update ''exp'' (PyInt (datetime_to_epoch (now + ACCESS_TOKEN_LIFETIME st)))
                    (AList.update ''jti'' (PyStr uuid4_hex)
                       [(TOKEN_TYPE_CLAIM st, PyStr ''access'')]))\<rparr>)"
  unfolding access_token_def AccessToken_init_def
  by (simp add: Token_init_fresh [where tt = "''access''" and lt = "ACCESS_TOKEN_LIFETIME st"]
      AccessToken_def set_exp_def setitem_def)

subsection \<open>The example inputs\<close>

lemma example_decode_simps:
  "example_decode ''access-ok'' = Inr [(''token_type'', PyStr ''access''), (''exp'', PyInt 86400),
                       (''jti'', PyStr hex_0a), (''user_id'', PyInt 42)]"
  "example_decode ''refresh-ok'' = Inr [(''token_type'', PyStr ''refresh''), (''exp'', PyInt 86400),
                        (''jti'', PyStr hex_0b), (''user_id'', PyInt 42)]"
  "example_decode ''refresh-revoked'' = Inr [(''token_type'', PyStr ''refresh''),
                        (''exp'', PyInt 86400), (''jti'', PyStr hex_1b), (''user_id'', PyInt 7)]"
  "example_decode ''sliding-ok'' = Inr [(''token_type'', PyStr ''sliding''), (''exp'', PyInt 86400),
                        (''jti'', PyStr hex_0c), (''refresh_exp'', PyInt 172800)]"
  "example_decode ''no-exp'' = Inr [(''token_type'', PyStr ''access''), (''jti'', PyStr hex_0d)]"
  "example_decode ''exp-now'' = Inr [(''token_type'', PyStr ''access''), (''exp'', PyInt 86100),
                     (''jti'', PyStr hex_0e)]"
  "example_decode ''no-type'' = Inr [(''exp'', PyInt 86400), (''jti'', PyStr hex_0f)]"
  "example_decode ''exp-text'' = Inr [(''token_type'', PyStr ''access''),
                     (''exp'', PyStr ''86400''), (''jti'', PyStr hex_0a)]"
  "example_decode ''no-jti'' = Inr [(''token_type'', PyStr ''access''), (''exp'', PyInt 86400)]"
  "example_decode ''forged'' = Inl ''Signature verification failed.''"
  by (simp_all add: example_decode_def example_tokens_def)

lemma example_class_simps:
  "token_type (AccessToken example_settings) = Some ''access''"
  "lifetime (AccessToken example_settings) = Some 300000000"
  "token_type (RefreshToken example_settings) = Some ''refresh''"
  "lifetime (RefreshToken example_settings) = Some 86400000000"
  "token_type (SlidingToken example_settings) = Some ''sliding''"
  "lifetime (SlidingToken example_settings) = Some 300000000"
  by (simp_all add: AccessToken_def RefreshToken_def SlidingToken_def example_settings_def)

lemma example_settings_simps:
  "TOKEN_TYPE_CLAIM example_settings = ''token_type''"
  "USER_ID_FIELD example_settings = ''id''"
  "USER_ID_CLAIM example_settings = ''user_id''"
  "SLIDING_TOKEN_REFRESH_EXP_CLAIM example_settings = ''refresh_exp''"
  "ACCESS_TOKEN_LIFETIME example_settings = 300000000"
  "REFRESH_TOKEN_LIFETIME example_settings = 86400000000"
  "SLIDING_TOKEN_LIFETIME example_settings = 300000000"
  "SLIDING_TOKEN_REFRESH_LIFETIME example_settings = 86400000000"
  by (simp_all add: example_settings_def)

lemma example_UUID_simps:
  "example_UUID (PyStr hex_0b) = Inr 302240678275694148452363"
  "example_UUID (PyStr hex_1b) = Inr 302240678275694148452379"
  "example_UUID (PyStr hex_0c) = Inr 302240678275694148452364"
  "example_UUID (PyStr hex_ab) = Inr 302240678275694148452523"
  by (simp_all add: example_UUID_def)

lemma example_revoked_valid:
  "Token_init example_settings example_decode 86100000000 hex_ab (RefreshToken example_settings)
     (Some ''refresh-revoked'') =
     Inr \<lparr>token_type = Some ''refresh'', lifetime = Some 86400000000,
          token = Some ''refresh-revoked'', current_time = 86100000000,
          payload = [(''token_type'', PyStr ''refresh''), (''exp'', PyInt 86400),
                     (''jti'', PyStr hex_1b), (''user_id'', PyInt 7)]\<rparr>"
  by (simp add: Token_init_encoded_unfold [OF example_class_simps(3,4)] example_decode_simps
      example_settings_simps check_exp_cases)

lemma example_sliding_valid:
  "Token_init example_settings example_decode 86100000000 hex_ab (SlidingToken example_settings)
     (Some ''sliding-ok'') =
     Inr \<lparr>token_type = Some ''sliding'', lifetime = Some 300000000,
          token = Some ''sliding-ok'', current_time = 86100000000,
          payload = [(''token_type'', PyStr ''sliding''), (''exp'', PyInt 86400),
                     (''jti'', PyStr hex_0c), (''refresh_exp'', PyInt 172800)]\<rparr>"
  by (simp add: Token_init_encoded_unfold [OF example_class_simps(5,6)] example_decode_simps
      example_settings_simps check_exp_cases)

lemma example_refresh_init:
  "RefreshToken_init example_revocation example_settings example_decode 86100000000 hex_ab
     (Some ''refresh-ok'') = Inr example_refresh"
  by (simp add: RefreshToken_init_def BlacklistMixin_init_def check_blacklist_def objects_get_def
      Token_init_encoded_unfold [OF example_class_simps(3,4)] example_decode_simps
      example_settings_simps check_exp_cases example_revocation_def example_UUID_simps
      example_refresh_def)

lemma example_access_derived:
  "access_token example_settings example_decode 86101000000 hex_cd example_refresh =
     Inr (example_refresh, example_access)"
  by (simp add: access_token_unfold example_refresh_def example_access_def
      example_settings_simps no_copy_claims_def setitem_def datetime_to_epoch_def)

section \<open>Construction from an encoded string\<close>

text \<open>
  The checks of construction from an encoded string. For a variant with a type tag \<open>tt\<close>
  and a lifetime, let \<open>R\<close> be the result of constructing a token from the encoded string.
  If the backend raises, whatever its reason, \<open>R\<close> is the TokenError "Token is invalid or
  expired". If the backend returns the payload \<open>p\<close>, the checks run in this order and the
  first one violated decides the error: a missing \<open>exp\<close> claim, then an \<open>exp\<close> time not
  after \<open>now\<close>, then a missing type claim, then a type claim different from \<open>tt\<close>, then a
  missing \<open>jti\<close>; when none is violated \<open>R\<close> is the token that wraps \<open>p\<close>. A token is
  returned exactly when the backend succeeds and the three checks pass. The time of an
  \<open>exp\<close> claim is defined for the numbers only, and these clauses speak of such a claim.
\<close>

lemma Token_init_checks_in_order:
  assumes "token_type cls = Some tt" and "lifetime cls = Some lt"
    and "R = Token_init st decode now uuid4_hex cls (Some encoded)"
  shows
   "(decode encoded = Inl reason \<longrightarrow> R = Inl (TokenError ''Token is invalid or expired'')) \<and>
    (decode encoded = Inr p \<longrightarrow>
       (map_of p ''exp'' = None \<longrightarrow> R = Inl (TokenError (msg_no_claim ''exp''))) \<and>
       (map_of p ''exp'' = Some v \<and> datetime_from_epoch v = Inr t \<and> t \<le> now \<longrightarrow>
          R = Inl (TokenError (msg_expired ''exp''))) \<and>
       (map_of p ''exp'' = Some v \<and> datetime_from_epoch v = Inr t \<and> now < t \<longrightarrow>
          (map_of p (TOKEN_TYPE_CLAIM st) = None \<longrightarrow> R = Inl (TokenError ''Token has no type'')) \<and>
          (map_of p (TOKEN_TYPE_CLAIM st) = Some w \<and> w \<noteq> PyStr tt \<longrightarrow>
             R = Inl (TokenError ''Token has wrong type'')) \<and>
          (map_of p (TOKEN_TYPE_CLAIM st) = Some (PyStr tt) \<and> ''jti'' \<notin> fst ` set p \<longrightarrow>
             R = Inl (TokenError ''Token has no id'')) \<and>
          (map_of p (TOKEN_TYPE_CLAIM st) = Some (PyStr tt) \<and> ''jti'' \<in> fst ` set p \<longrightarrow>
             R = Inr \<lparr>token_type = Some tt, lifetime = Some lt, token = Some encoded,
                      current_time = now, payload = p\<rparr>))) \<and>
    ((\<exists>self. R = Inr self) \<longleftrightarrow>
       (\<exists>p' v' t'. decode encoded = Inr p' \<and>
          map_of p' ''exp'' = Some v' \<and> datetime_from_epoch v' = Inr t' \<and> now < t' \<and>
          map_of p' (TOKEN_TYPE_CLAIM st) = Some (PyStr tt) \<and> ''jti'' \<in> fst ` set p'))"
    (is "?fail_fast \<and> ?returned")
proof
  note R = Token_init_encoded_unfold [OF assms(1,2), of st decode now uuid4_hex encoded,
      folded assms(3)]
  show ?fail_fast
    unfolding R by (auto simp: check_exp_cases)
  show ?returned
    unfolding R
    by (cases "decode encoded")
       (auto simp: check_exp_cases split: option.splits sum.splits if_splits)
qed

lemma Token_init_checks_in_order_example:
  "Token_init example_settings example_decode 86100000000 hex_ab (AccessToken example_settings)
     (Some ''access-ok'')
     = Inr \<lparr>token_type = Some ''access'', lifetime = Some 300000000, token = Some ''access-ok'',
            current_time = 86100000000,
            payload = [(''token_type'', PyStr ''access''), (''exp'', PyInt 86400),
                       (''jti'', PyStr hex_0a), (''user_id'', PyInt 42)]\<rparr> \<and>
   Token_init example_settings example_decode 86100000000 hex_ab (AccessToken example_settings)
     (Some ''forged'') = Inl (TokenError ''Token is invalid or expired'') \<and>
   Token_init example_settings example_decode 86100000000 hex_ab (AccessToken example_settings)
     (Some ''no-exp'') = Inl (TokenError (msg_no_claim ''exp'')) \<and>
   Token_init example_settings example_decode 86100000000 hex_ab (AccessToken example_settings)
     (Some ''exp-now'') = Inl (TokenError (msg_expired ''exp'')) \<and>
   Token_init example_settings example_decode 86100000000 hex_ab (AccessToken example_settings)
     (Some ''no-type'') = Inl (TokenError ''Token has no type'') \<and>
   Token_init example_settings example_decode 86100000000 hex_ab (AccessToken example_settings)
     (Some ''refresh-ok'') = Inl (TokenError ''Token has wrong type'') \<and>
   Token_init example_settings example_decode 86100000000 hex_ab (AccessToken example_settings)
     (Some ''no-jti'') = Inl (TokenError ''Token has no id'')"
proof -
  note T = Token_init_checks_in_order [OF example_class_simps(1) example_class_simps(2) refl,
      where st = example_settings and decode = example_decode and now = 86100000000
        and ?uuid4_hex = "hex_ab"]
  show ?thesis
    using
      T [where encoded = "''access-ok''" and v = "PyInt 86400" and t = 86400000000
          and p = "[(''token_type'', PyStr ''access''), (''exp'', PyInt 86400),
                       (''jti'', PyStr hex_0a), (''user_id'', PyInt 42)]"]
      T [where encoded = "''forged''" and reason = "''Signature verification failed.''"]
      T [where encoded = "''no-exp''"
          and p = "[(''token_type'', PyStr ''access''), (''jti'', PyStr hex_0d)]"]
      T [where encoded = "''exp-now''" and v = "PyInt 86100" and t = 86100000000
          and p = "[(''token_type'', PyStr ''access''), (''exp'', PyInt 86100),
                     (''jti'', PyStr hex_0e)]"]
      T [where encoded = "''no-type''" and v = "PyInt 86400" and t = 86400000000
          and p = "[(''exp'', PyInt 86400), (''jti'', PyStr hex_0f)]"]
      T [where encoded = "''refresh-ok''" and v = "PyInt 86400" and t = 86400000000
          and w = "PyStr ''refresh''"
          and p = "[(''token_type'', PyStr ''refresh''), (''exp'', PyInt 86400),
                        (''jti'', PyStr hex_0b), (''user_id'', PyInt 42)]"]
      T [where encoded = "''no-jti''" and v = "PyInt 86400" and t = 86400000000
          and p = "[(''token_type'', PyStr ''access''), (''exp'', PyInt 86400)]"]
    by (simp add: example_decode_simps example_settings_simps)
qed

text \<open>
  Claim C1. The claim promises, for every encoded string that the backend accepts, a
  token or the TokenError of the first check violated, and the docstring of
  \<^verbatim>\<open>Token.__init__\<close> says that it must raise a TokenError for a token that is invalid.
  The code does so when the \<open>exp\<close> claim is absent or is a number. For an \<open>exp\<close> claim
  that is present and is not a number, here the text \<open>86400\<close>, \<^const>\<open>check_exp\<close> hands the
  value to \<^const>\<open>datetime_from_epoch\<close> and the \<^verbatim>\<open>TypeError\<close> raised there leaves
  \<^verbatim>\<open>__init__\<close>: construction ends with neither a token nor a TokenError.
\<close>

theorem Token_init_exp_not_a_number:
  "example_decode ''exp-text'' =
     Inr [(''token_type'', PyStr ''access''), (''exp'', PyStr ''86400''), (''jti'', PyStr hex_0a)] \<and>
   check_exp \<lparr>token_type = Some ''access'', lifetime = Some 300000000, token = Some ''exp-text'',
              current_time = 86100000000,
              payload = [(''token_type'', PyStr ''access''), (''exp'', PyStr ''86400''),
                         (''jti'', PyStr hex_0a)]\<rparr> ''exp'' None = Inl TypeError \<and>
   Token_init example_settings example_decode 86100000000 hex_ab (AccessToken example_settings)
     (Some ''exp-text'') = Inl TypeError"
  by (simp add: Token_init_encoded_unfold [OF example_class_simps(1,2)] example_decode_simps
      check_exp_cases)

text \<open>
  Claim C10. Whenever construction from an encoded string succeeds, for the base class,
  with the blacklist mixin and for each of the three variants, the payload of the
  returned token is the mapping that the backend's \<open>decode\<close> returned for that string:
  no validation step adds, removes or alters a claim.
\<close>

theorem decode_path_keeps_payload:
  "(Token_init st decode now uuid4_hex cls (Some encoded) = Inr self \<longrightarrow>
      decode encoded = Inr (payload self)) \<and>
   (BlacklistMixin_init rv st decode now uuid4_hex cls (Some encoded) = Inr self \<longrightarrow>
      decode encoded = Inr (payload self)) \<and>
   (AccessToken_init st decode now uuid4_hex (Some encoded) = Inr self \<longrightarrow>
      decode encoded = Inr (payload self)) \<and>
   (RefreshToken_init rv st decode now uuid4_hex (Some encoded) = Inr self \<longrightarrow>
      decode encoded = Inr (payload self)) \<and>
   (SlidingToken_init rv st decode now uuid4_hex (Some encoded) = Inr self \<longrightarrow>
      decode encoded = Inr (payload self))"
  unfolding SlidingToken_init_encoded RefreshToken_init_def AccessToken_init_def
  by (blast dest: BlacklistMixin_init_Inr Token_init_encoded_Inr)

theorem decode_path_keeps_payload_witness:
  "AccessToken_init example_settings example_decode 86100000000 hex_ab (Some ''access-ok'') =
     Inr \<lparr>token_type = Some ''access'', lifetime = Some 300000000, token = Some ''access-ok'',
            current_time = 86100000000,
            payload = [(''token_type'', PyStr ''access''), (''exp'', PyInt 86400),
                       (''jti'', PyStr hex_0a), (''user_id'', PyInt 42)]\<rparr> \<and>
   example_decode ''access-ok'' =
     Inr [(''token_type'', PyStr ''access''), (''exp'', PyInt 86400),
          (''jti'', PyStr hex_0a), (''user_id'', PyInt 42)]"
proof -
  have a: "AccessToken_init example_settings example_decode 86100000000 hex_ab
       (Some ''access-ok'') =
     Inr \<lparr>token_type = Some ''access'', lifetime = Some 300000000, token = Some ''access-ok'',
            current_time = 86100000000,
            payload = [(''token_type'', PyStr ''access''), (''exp'', PyInt 86400),
                       (''jti'', PyStr hex_0a), (''user_id'', PyInt 42)]\<rparr>"
    by (simp add: AccessToken_init_def Token_init_encoded_unfold [OF example_class_simps(1,2)]
        example_decode_simps example_settings_simps check_exp_cases)
  from decode_path_keeps_payload [where st = example_settings and decode = example_decode
      and now = 86100000000 and ?uuid4_hex = "hex_ab" and encoded = "''access-ok''"
      and self = "\<lparr>token_type = Some ''access'', lifetime = Some 300000000,
            token = Some ''access-ok'', current_time = 86100000000,
            payload = [(''token_type'', PyStr ''access''), (''exp'', PyInt 86400),
                       (''jti'', PyStr hex_0a), (''user_id'', PyInt 42)]\<rparr>"] a
  show ?thesis by simp
qed

text \<open>
  Claim C7, as the code has it. A class whose type tag or lifetime is \<^verbatim>\<open>None\<close> cannot be
  instantiated, with or without an encoded string and with or without the blacklist
  mixin: the result is the same error for every backend, clock reading, identifier and
  argument, so nothing else has been looked at. The error is a \<^verbatim>\<open>TokenError\<close> with the
  message "Cannot create token with no type or lifetime".
\<close>

theorem construction_unconfigured:
  assumes "token_type cls = None \<or> lifetime cls = None"
  shows "Token_init st decode now uuid4_hex cls token_arg =
           Inl (TokenError ''Cannot create token with no type or lifetime'') \<and>
         BlacklistMixin_init rv st decode now uuid4_hex cls token_arg =
           Inl (TokenError ''Cannot create token with no type or lifetime'')"
  using Token_init_unconfigured [OF assms] by (simp add: BlacklistMixin_init_def)

theorem construction_unconfigured_witness:
  "Token_init example_settings example_decode 86100000000 hex_ab
     \<lparr>token_type = Some ''test'', lifetime = None\<rparr> (Some ''access-ok'') =
     Inl (TokenError ''Cannot create token with no type or lifetime'') \<and>
   BlacklistMixin_init example_revocation example_settings example_decode 86100000000 hex_ab
     \<lparr>token_type = Some ''test'', lifetime = None\<rparr> (Some ''access-ok'') =
     Inl (TokenError ''Cannot create token with no type or lifetime'')"
  using construction_unconfigured [where cls = "\<lparr>token_type = Some ''test'', lifetime = None\<rparr>"]
  by simp

text \<open>
  Claim C7 as stated names a separate class of error, \<^verbatim>\<open>ConfigurationError\<close>, for this
  failure. The base class, which defines neither attribute, fails with a
  \<^verbatim>\<open>TokenError\<close>, the class of the rejections of user input; the source has no other
  class of error for it.
\<close>

theorem construction_unconfigured_counterexample:
  "Token_init example_settings example_decode 86100000000 hex_ab
     \<lparr>token_type = None, lifetime = None\<rparr> None =
     Inl (TokenError ''Cannot create token with no type or lifetime'')"
  by (simp add: Token_init_def)

text \<open>
  Claim C8 as stated fails: two encoded strings rejected at different steps get
  different messages. Here the first is rejected by the backend and the second for its
  missing \<open>jti\<close>.
\<close>

theorem rejection_messages_counterexample:
  "Token_init example_settings example_decode 86100000000 hex_ab (AccessToken example_settings)
     (Some ''forged'') = Inl (TokenError ''Token is invalid or expired'') \<and>
   Token_init example_settings example_decode 86100000000 hex_ab (AccessToken example_settings)
     (Some ''no-jti'') = Inl (TokenError ''Token has no id'') \<and>
   ''Token is invalid or expired'' \<noteq> ''Token has no id''"
  by (simp add: Token_init_encoded_unfold [OF example_class_simps(1,2)] example_decode_simps
      example_settings_simps check_exp_cases)

text \<open>
  Claim C8, as the code has it. The message of the TokenError raised for a rejected
  encoded string is fixed by the step that rejected it: "Token is invalid or expired"
  for every failure of the backend, whatever the backend's reason, and one message of
  its own for a missing \<open>exp\<close>, an expired \<open>exp\<close>, a missing type claim, a wrong type and a
  missing \<open>jti\<close>. The six messages are pairwise different.
\<close>

theorem rejection_message_per_step:
  assumes "token_type cls = Some tt" and "lifetime cls = Some lt"
    and "Token_init st decode now uuid4_hex cls (Some encoded) = Inl (TokenError msg)"
  shows
   "(((\<exists>reason. decode encoded = Inl reason) \<and> msg = ''Token is invalid or expired'') \<or>
     (\<exists>p. decode encoded = Inr p \<and>
        (map_of p ''exp'' = None \<and> msg = msg_no_claim ''exp'' \<or>
         (\<exists>v t. map_of p ''exp'' = Some v \<and> datetime_from_epoch v = Inr t \<and> t \<le> now) \<and>
           msg = msg_expired ''exp'' \<or>
         (\<exists>v t. map_of p ''exp'' = Some v \<and> datetime_from_epoch v = Inr t \<and> now < t) \<and>
           (map_of p (TOKEN_TYPE_CLAIM st) = None \<and> msg = ''Token has no type'' \<or>
            (\<exists>w. map_of p (TOKEN_TYPE_CLAIM st) = Some w \<and> w \<noteq> PyStr tt) \<and>
              msg = ''Token has wrong type'' \<or>
            map_of p (TOKEN_TYPE_CLAIM st) = Some (PyStr tt) \<and> ''jti'' \<notin> fst ` set p \<and>
              msg = ''Token has no id'')))) \<and>
    distinct [''Token is invalid or expired'', msg_no_claim ''exp'', msg_expired ''exp'',
              ''Token has no type'', ''Token has wrong type'', ''Token has no id'']"
proof
  show "distinct [''Token is invalid or expired'', msg_no_claim ''exp'', msg_expired ''exp'',
              ''Token has no type'', ''Token has wrong type'', ''Token has no id'']"
    by (simp add: msg_no_claim_def msg_expired_def format_lazy_def)
  show "((\<exists>reason. decode encoded = Inl reason) \<and> msg = ''Token is invalid or expired'') \<or>
     (\<exists>p. decode encoded = Inr p \<and>
        (map_of p ''exp'' = None \<and> msg = msg_no_claim ''exp'' \<or>
         (\<exists>v t. map_of p ''exp'' = Some v \<and> datetime_from_epoch v = Inr t \<and> t \<le> now) \<and>
           msg = msg_expired ''exp'' \<or>
         (\<exists>v t. map_of p ''exp'' = Some v \<and> datetime_from_epoch v = Inr t \<and> now < t) \<and>
           (map_of p (TOKEN_TYPE_CLAIM st) = None \<and> msg = ''Token has no type'' \<or>
            (\<exists>w. map_of p (TOKEN_TYPE_CLAIM st) = Some w \<and> w \<noteq> PyStr tt) \<and>
              msg = ''Token has wrong type'' \<or>
            map_of p (TOKEN_TYPE_CLAIM st) = Some (PyStr tt) \<and> ''jti'' \<notin> fst ` set p \<and>
              msg = ''Token has no id'')))"
    using assms(3) unfolding Token_init_encoded_unfold [OF assms(1,2)]
    by (cases "decode encoded")
       (auto simp: check_exp_cases split: option.splits sum.splits if_splits)
qed

theorem rejection_message_per_step_witness:
  "distinct [''Token is invalid or expired'', msg_no_claim ''exp'', msg_expired ''exp'',
              ''Token has no type'', ''Token has wrong type'', ''Token has no id''] \<and>
   Token_init example_settings example_decode 86100000000 hex_ab (AccessToken example_settings)
     (Some ''no-jti'') = Inl (TokenError ''Token has no id'')"
proof -
  have r: "Token_init example_settings example_decode 86100000000 hex_ab
     (AccessToken example_settings) (Some ''no-jti'') = Inl (TokenError ''Token has no id'')"
    by (simp add: Token_init_encoded_unfold [OF example_class_simps(1,2)] example_decode_simps
      example_settings_simps check_exp_cases)
  from rejection_message_per_step [OF example_class_simps(1,2) r] r show ?thesis by blast
qed

section \<open>Expiry check\<close>

text \<open>
  Claim C2. \<^const>\<open>check_exp\<close> raises a TokenError exactly when the named claim is absent
  or its time is at or before the time compared against, which is the argument
  \<open>current_time\<close> or, without one, the time the instance captured; it returns exactly
  when the claim's time is strictly later. An absent claim gives the "no claim"
  message. A claim equal to the compared time is rejected as expired, and a claim one
  second later is accepted.
\<close>

theorem check_exp_raises_iff:
  "((\<exists>msg. check_exp self claim ct = Inl (TokenError msg)) \<longleftrightarrow>
      (map_of (payload self) claim = None \<or>
       (\<exists>v t. map_of (payload self) claim = Some v \<and> datetime_from_epoch v = Inr t \<and>
              t \<le> (case ct of None \<Rightarrow> current_time self | Some c \<Rightarrow> c)))) \<and>
   (check_exp self claim ct = Inr () \<longleftrightarrow>
      (\<exists>v t. map_of (payload self) claim = Some v \<and> datetime_from_epoch v = Inr t \<and>
             (case ct of None \<Rightarrow> current_time self | Some c \<Rightarrow> c) < t)) \<and>
   (map_of (payload self) claim = None \<longrightarrow>
      check_exp self claim ct = Inl (TokenError (msg_no_claim claim))) \<and>
   (map_of (payload self) claim = Some (PyInt ts) \<and>
      ts * 1000000 = (case ct of None \<Rightarrow> current_time self | Some c \<Rightarrow> c) \<longrightarrow>
      check_exp self claim ct = Inl (TokenError (msg_expired claim))) \<and>
   (map_of (payload self) claim = Some (PyInt ts) \<and>
      ts * 1000000 = (case ct of None \<Rightarrow> current_time self | Some c \<Rightarrow> c) + 1000000 \<longrightarrow>
      check_exp self claim ct = Inr ())"
  by (cases "map_of (payload self) claim"; cases ct)
     (auto simp: check_exp_cases split: sum.splits)

theorem check_exp_raises_iff_witness:
  "check_exp \<lparr>token_type = Some ''access'', lifetime = Some 300000000, token = None,
              current_time = 86100000000, payload = [(''exp'', PyInt 86100)]\<rparr> ''exp'' None
     = Inl (TokenError (msg_expired ''exp'')) \<and>
   check_exp \<lparr>token_type = Some ''access'', lifetime = Some 300000000, token = None,
              current_time = 86100000000, payload = [(''exp'', PyInt 86100)]\<rparr> ''exp''
       (Some 86099000000)
     = Inr () \<and>
   check_exp \<lparr>token_type = Some ''access'', lifetime = Some 300000000, token = None,
              current_time = 86100000000, payload = [(''exp'', PyInt 86100)]\<rparr> ''refresh_exp'' None
     = Inl (TokenError (msg_no_claim ''refresh_exp''))"
  using
    check_exp_raises_iff [where self = "\<lparr>token_type = Some ''access'', lifetime = Some 300000000,
        token = None, current_time = 86100000000, payload = [(''exp'', PyInt 86100)]\<rparr>"
      and claim = "''exp''" and ct = None and ts = 86100]
    check_exp_raises_iff [where self = "\<lparr>token_type = Some ''access'', lifetime = Some 300000000,
        token = None, current_time = 86100000000, payload = [(''exp'', PyInt 86100)]\<rparr>"
      and claim = "''exp''" and ct = "Some 86099000000" and ts = 86100]
    check_exp_raises_iff [where self = "\<lparr>token_type = Some ''access'', lifetime = Some 300000000,
        token = None, current_time = 86100000000, payload = [(''exp'', PyInt 86100)]\<rparr>"
      and claim = "''refresh_exp''" and ct = None]
  by simp

section \<open>Fresh construction\<close>

text \<open>
  Claim C6. A token constructed without an encoded string, of any class with a type tag
  and a lifetime and so of the access and refresh variants, has exactly the claims named
  by the type-claim setting, \<open>jti\<close> and \<open>exp\<close>; with a type-claim name other than \<open>jti\<close>
  and \<open>exp\<close> the payload is these three entries: the tag, the new identifier and the
  epoch of \<open>now\<close> plus the lifetime. A fresh sliding token has these claims and the
  refresh-expiration claim, whose value is the epoch of \<open>now\<close> plus the configured
  sliding refresh lifetime; with pairwise different claim names its payload is the four
  entries. A sliding token constructed from an encoded string carries the decoded
  payload as it is, so the refresh-expiration claim is not stamped on that path.
\<close>

theorem fresh_token_claims:
  "(token_type cls = Some tt \<and> lifetime cls = Some lt \<longrightarrow>
      (\<exists>self. Token_init st decode now uuid4_hex cls None = Inr self \<and>
         BlacklistMixin_init rv st decode now uuid4_hex cls None = Inr self \<and>
         fst ` set (payload self) = {TOKEN_TYPE_CLAIM st, ''jti'', ''exp''} \<and>
         (TOKEN_TYPE_CLAIM st \<notin> {''jti'', ''exp''} \<longrightarrow>
            payload self = [(TOKEN_TYPE_CLAIM st, PyStr tt), (''jti'', PyStr uuid4_hex),
                            (''exp'', PyInt (datetime_to_epoch (now + lt)))]))) \<and>
   (\<exists>self. AccessToken_init st decode now uuid4_hex None = Inr self \<and>
      fst ` set (payload self) = {TOKEN_TYPE_CLAIM st, ''jti'', ''exp''}) \<and>
   (\<exists>self. RefreshToken_init rv st decode now uuid4_hex None = Inr self \<and>
      fst ` set (payload self) = {TOKEN_TYPE_CLAIM st, ''jti'', ''exp''}) \<and>
   (\<exists>self. SlidingToken_init rv st decode now uuid4_hex None = Inr self \<and>
      fst ` set (payload self) =
        {TOKEN_TYPE_CLAIM st, ''jti'', ''exp''} \<union> {SLIDING_TOKEN_REFRESH_EXP_CLAIM st} \<and>
      map_of (payload self) (SLIDING_TOKEN_REFRESH_EXP_CLAIM st) =
        Some (PyInt (datetime_to_epoch (now + SLIDING_TOKEN_REFRESH_LIFETIME st))) \<and>
      (TOKEN_TYPE_CLAIM st \<notin> {''jti'', ''exp''} \<and>
       SLIDING_TOKEN_REFRESH_EXP_CLAIM st \<notin> {TOKEN_TYPE_CLAIM st, ''jti'', ''exp''} \<longrightarrow>
         payload self =
           [(TOKEN_TYPE_CLAIM st, PyStr ''sliding''), (''jti'', PyStr uuid4_hex),
            (''exp'', PyInt (datetime_to_epoch (now + SLIDING_TOKEN_LIFETIME st))),
            (SLIDING_TOKEN_REFRESH_EXP_CLAIM st,
             PyInt (datetime_to_epoch (now + SLIDING_TOKEN_REFRESH_LIFETIME st)))])) \<and>
   (SlidingToken_init rv st decode now uuid4_hex (Some encoded) = Inr self' \<longrightarrow>
      decode encoded = Inr (payload self'))"
    (is "?generic \<and> ?access \<and> ?refresh \<and> ?sliding \<and> ?decoded")
proof (intro conjI)
  show ?generic
    by (auto simp: Token_init_fresh BlacklistMixin_init_fresh dom_update)
  show ?access
    unfolding AccessToken_init_def
    by (auto simp: Token_init_fresh [where tt = "''access''" and lt = "ACCESS_TOKEN_LIFETIME st"]
        AccessToken_def dom_update)
  show ?refresh
    unfolding RefreshToken_init_def BlacklistMixin_init_fresh
    by (auto simp: Token_init_fresh [where tt = "''refresh''" and lt = "REFRESH_TOKEN_LIFETIME st"]
        RefreshToken_def dom_update)
  show ?sliding
    unfolding SlidingToken_init_fresh
    by (auto simp: dom_update update_conv')
  show ?decoded
    unfolding SlidingToken_init_encoded
    by (blast dest: BlacklistMixin_init_Inr Token_init_encoded_Inr)
qed

theorem fresh_token_claims_witness:
  "Token_init example_settings example_decode 86100000000 hex_ab (AccessToken example_settings)
     None =
     Inr \<lparr>token_type = Some ''access'', lifetime = Some 300000000, token = None,
          current_time = 86100000000,
          payload = [(''token_type'', PyStr ''access''), (''jti'', PyStr hex_ab),
                     (''exp'', PyInt 86400)]\<rparr> \<and>
   SlidingToken_init example_revocation example_settings example_decode 86100000000 hex_ab None =
     Inr \<lparr>token_type = Some ''sliding'', lifetime = Some 300000000, token = None,
          current_time = 86100000000,
          payload = [(''token_type'', PyStr ''sliding''), (''jti'', PyStr hex_ab),
                     (''exp'', PyInt 86400), (''refresh_exp'', PyInt 172500)]\<rparr> \<and>
   SlidingToken_init example_revocation example_settings example_decode 86100000000 hex_ab
     (Some ''sliding-ok'') =
     Inr \<lparr>token_type = Some ''sliding'', lifetime = Some 300000000,
          token = Some ''sliding-ok'', current_time = 86100000000,
          payload = [(''token_type'', PyStr ''sliding''), (''exp'', PyInt 86400),
                     (''jti'', PyStr hex_0c), (''refresh_exp'', PyInt 172800)]\<rparr> \<and>
   example_decode ''sliding-ok'' =
     Inr [(''token_type'', PyStr ''sliding''), (''exp'', PyInt 86400),
          (''jti'', PyStr hex_0c), (''refresh_exp'', PyInt 172800)]"
proof -
  let ?decoded = "\<lparr>token_type = Some ''sliding'', lifetime = Some 300000000,
          token = Some ''sliding-ok'', current_time = 86100000000,
          payload = [(''token_type'', PyStr ''sliding''), (''exp'', PyInt 86400),
                     (''jti'', PyStr hex_0c), (''refresh_exp'', PyInt 172800)]\<rparr>"
  note T = fresh_token_claims [where cls = "AccessToken example_settings" and tt = "''access''"
      and lt = 300000000 and st = example_settings and decode = example_decode
      and now = 86100000000 and ?uuid4_hex = "hex_ab" and rv = example_revocation
      and encoded = "''sliding-ok''" and self' = ?decoded]
  have s: "SlidingToken_init example_revocation example_settings example_decode 86100000000 hex_ab
     (Some ''sliding-ok'') = Inr ?decoded"
    by (simp add: SlidingToken_init_encoded BlacklistMixin_init_def example_sliding_valid
        check_blacklist_def objects_get_def example_revocation_def example_UUID_simps)
  have c: "token_type (AccessToken example_settings) = Some ''access'' \<and>
      lifetime (AccessToken example_settings) = Some 300000000"
    by (simp add: example_class_simps)
  have n: "TOKEN_TYPE_CLAIM example_settings \<notin> {''jti'', ''exp''}"
    "TOKEN_TYPE_CLAIM example_settings \<notin> {''jti'', ''exp''} \<and>
     SLIDING_TOKEN_REFRESH_EXP_CLAIM example_settings \<notin>
       {TOKEN_TYPE_CLAIM example_settings, ''jti'', ''exp''}"
    by (simp_all add: example_settings_simps)
  from T [THEN conjunct1, THEN mp, OF c] n(1)
  obtain a where a: "Token_init example_settings example_decode 86100000000 hex_ab
      (AccessToken example_settings) None = Inr a"
    and pa: "payload a = [(TOKEN_TYPE_CLAIM example_settings, PyStr ''access''),
      (''jti'', PyStr hex_ab), (''exp'', PyInt (datetime_to_epoch (86100000000 + 300000000)))]"
    by blast
  from T [THEN conjunct2, THEN conjunct2, THEN conjunct2, THEN conjunct1] n(2)
  obtain b where b: "SlidingToken_init example_revocation example_settings example_decode
      86100000000 hex_ab None = Inr b"
    and pb: "payload b = [(TOKEN_TYPE_CLAIM example_settings, PyStr ''sliding''),
      (''jti'', PyStr hex_ab),
      (''exp'', PyInt (datetime_to_epoch (86100000000 + SLIDING_TOKEN_LIFETIME example_settings))),
      (SLIDING_TOKEN_REFRESH_EXP_CLAIM example_settings,
       PyInt (datetime_to_epoch
         (86100000000 + SLIDING_TOKEN_REFRESH_LIFETIME example_settings)))]"
    by blast
  from T [THEN conjunct2, THEN conjunct2, THEN conjunct2, THEN conjunct2, THEN mp, OF s]
  have d: "example_decode ''sliding-ok'' = Inr (payload ?decoded)" .
  have a': "a = \<lparr>token_type = Some ''access'', lifetime = Some 300000000, token = None,
          current_time = 86100000000,
          payload = [(''token_type'', PyStr ''access''), (''jti'', PyStr hex_ab),
                     (''exp'', PyInt 86400)]\<rparr>"
    using a pa
    by (simp add: Token_init_fresh [OF example_class_simps(1,2)] example_settings_simps
        datetime_to_epoch_def)
  have b': "b = \<lparr>token_type = Some ''sliding'', lifetime = Some 300000000, token = None,
          current_time = 86100000000,
          payload = [(''token_type'', PyStr ''sliding''), (''jti'', PyStr hex_ab),
                     (''exp'', PyInt 86400), (''refresh_exp'', PyInt 172500)]\<rparr>"
    using b pb
    by (simp add: SlidingToken_init_fresh example_settings_simps datetime_to_epoch_def)
  from a b s d show ?thesis
    unfolding a' b' by simp
qed

section \<open>Revocation\<close>

text \<open>
  Claim C5. With the blacklist app installed, take an encoded refresh or sliding token
  that passes the validation of \<^const>\<open>Token_init\<close> (signature, expiry, type, \<open>jti\<close>) and
  whose \<open>jti\<close> reads as the identifier \<open>jti\<close>. If that identifier is in the blacklist,
  construction fails with the TokenError "Token is blacklisted"; if not, construction
  returns the validated token. Construction without an encoded string gives the same
  result for every state \<open>rv'\<close> of the revocation data: the blacklist is not consulted.
\<close>

theorem blacklist_lookup_on_decode:
  assumes "installed rv"
    and "cls = RefreshToken st \<and> R = RefreshToken_init rv st decode now uuid4_hex (Some encoded) \<or>
         cls = SlidingToken st \<and> R = SlidingToken_init rv st decode now uuid4_hex (Some encoded)"
    and "Token_init st decode now uuid4_hex cls (Some encoded) = Inr self"
    and "map_of (payload self) ''jti'' = Some hex" and "UUID rv hex = Inr jti"
  shows "(jti \<in> set (blacklist rv) \<longrightarrow> R = Inl (TokenError ''Token is blacklisted'')) \<and>
         (jti \<notin> set (blacklist rv) \<longrightarrow> R = Inr self) \<and>
         RefreshToken_init rv st decode now uuid4_hex None =
           RefreshToken_init rv' st decode now uuid4_hex None \<and>
         SlidingToken_init rv st decode now uuid4_hex None =
           SlidingToken_init rv' st decode now uuid4_hex None"
proof -
  have "R = BlacklistMixin_init rv st decode now uuid4_hex cls (Some encoded)"
    using assms(2) by (auto simp: RefreshToken_init_def SlidingToken_init_encoded)
  then show ?thesis
    using blacklisted_rejected [OF assms(1,3,4,5)]
    by (simp add: RefreshToken_init_def BlacklistMixin_init_fresh SlidingToken_init_fresh)
qed

theorem blacklist_lookup_on_decode_witness:
  "RefreshToken_init example_revocation example_settings example_decode 86100000000 hex_ab
     (Some ''refresh-revoked'') = Inl (TokenError ''Token is blacklisted'') \<and>
   SlidingToken_init example_revocation example_settings example_decode 86100000000 hex_ab
     (Some ''sliding-ok'') =
     Inr \<lparr>token_type = Some ''sliding'', lifetime = Some 300000000,
          token = Some ''sliding-ok'', current_time = 86100000000,
          payload = [(''token_type'', PyStr ''sliding''), (''exp'', PyInt 86400),
                     (''jti'', PyStr hex_0c), (''refresh_exp'', PyInt 172800)]\<rparr>"
proof -
  let ?revoked = "\<lparr>token_type = Some ''refresh'', lifetime = Some 86400000000,
          token = Some ''refresh-revoked'', current_time = 86100000000,
          payload = [(''token_type'', PyStr ''refresh''), (''exp'', PyInt 86400),
                     (''jti'', PyStr hex_1b), (''user_id'', PyInt 7)]\<rparr>"
  let ?sliding = "\<lparr>token_type = Some ''sliding'', lifetime = Some 300000000,
          token = Some ''sliding-ok'', current_time = 86100000000,
          payload = [(''token_type'', PyStr ''sliding''), (''exp'', PyInt 86400),
                     (''jti'', PyStr hex_0c), (''refresh_exp'', PyInt 172800)]\<rparr>"
  have i: "installed example_revocation"
    by (simp add: example_revocation_def)
  have j: "map_of (payload ?revoked) ''jti'' = Some (PyStr hex_1b)"
    "map_of (payload ?sliding) ''jti'' = Some (PyStr hex_0c)"
    by simp_all
  have u: "UUID example_revocation (PyStr hex_1b) = Inr 302240678275694148452379"
    "UUID example_revocation (PyStr hex_0c) = Inr 302240678275694148452364"
    by (simp_all add: example_revocation_def example_UUID_simps)
  have b: "302240678275694148452379 \<in> set (blacklist example_revocation)"
    "302240678275694148452364 \<notin> set (blacklist example_revocation)"
    by (simp_all add: example_revocation_def)
  note R = blacklist_lookup_on_decode
    [OF i disjI1 [OF conjI [OF refl refl]] example_revoked_valid j(1) u(1)]
  note S = blacklist_lookup_on_decode
    [OF i disjI2 [OF conjI [OF refl refl]] example_sliding_valid j(2) u(2)]
  from R [THEN conjunct1, THEN mp, OF b(1)]
    S [THEN conjunct2, THEN conjunct1, THEN mp, OF b(2)]
  show ?thesis by (rule conjI)
qed

section \<open>Derivation of an access token from a refresh token\<close>

text \<open>
  Claim C3. For every token \<open>self\<close>, whatever the clock reads when the access token is
  constructed, the access token derived from \<open>self\<close> has the \<open>exp\<close> claim
  \<open>datetime_to_epoch (current_time self + ACCESS_TOKEN_LIFETIME)\<close>: the time captured
  by the refresh token plus the access lifetime. The access token's own captured time
  is \<open>now\<close>.
\<close>

theorem access_token_exp_from_refresh_time:
  "\<exists>access. access_token st decode now uuid4_hex self = Inr (self, access) \<and>
      current_time access = now \<and>
      map_of (payload access) ''exp'' =
        Some (PyInt (datetime_to_epoch (current_time self + ACCESS_TOKEN_LIFETIME st)))"
  unfolding access_token_unfold
  by (simp add: copy_claims_fields copy_claims_skipped no_copy_claims_def update_conv')

theorem access_token_exp_from_refresh_time_witness:
  "access_token example_settings example_decode 86101000000 hex_cd example_refresh =
     Inr (example_refresh, example_access) \<and>
   map_of (payload example_access) ''exp'' = Some (PyInt 86400) \<and>
   datetime_to_epoch (current_time example_refresh + ACCESS_TOKEN_LIFETIME example_settings) = 86400 \<and>
   datetime_to_epoch (current_time example_access + ACCESS_TOKEN_LIFETIME example_settings) = 86401"
  using access_token_exp_from_refresh_time
    [of example_settings example_decode 86101000000 "hex_cd" example_refresh]
  by (auto simp: example_access_derived)
     (simp_all add: example_refresh_def example_access_def example_settings_simps
       datetime_to_epoch_def)

text \<open>
  Claim C4 as stated fails: the \<open>exp\<close> of the derived token need not differ from the
  refresh token's. A refresh token that expires at 86400 seconds, decoded at 86100
  seconds with an access lifetime of 300 seconds, derives an access token with the
  same \<open>exp\<close>.
\<close>

theorem access_token_exp_counterexample:
  "RefreshToken_init example_revocation example_settings example_decode 86100000000 hex_ab
     (Some ''refresh-ok'') = Inr example_refresh \<and>
   access_token example_settings example_decode 86101000000 hex_cd example_refresh =
     Inr (example_refresh, example_access) \<and>
   map_of (payload example_access) ''exp'' = map_of (payload example_refresh) ''exp''"
  by (simp add: example_refresh_init example_access_derived)
     (simp add: example_refresh_def example_access_def)

text \<open>
  Claim C4, as the code has it. For a refresh token whose payload is a dict (no key
  twice), derivation returns an access token on which every claim outside the exclusion
  set (type claim, \<open>exp\<close>, \<open>jti\<close>) has the value it has on the refresh token, and is
  absent if absent there; the derived token's \<open>jti\<close>, \<open>exp\<close> and type claim are not taken
  from the refresh token: they are the newly drawn identifier, the epoch of the refresh
  token's captured time plus the access lifetime, and the tag \<open>access\<close>. The refresh
  token is left as it was.
\<close>

theorem access_token_copies_claims:
  assumes "distinct (map fst (payload self))"
  shows "\<exists>access. access_token st decode now uuid4_hex self = Inr (self, access) \<and>
      (\<forall>claim. claim \<notin> {TOKEN_TYPE_CLAIM st, ''exp'', ''jti''} \<longrightarrow>
         map_of (payload access) claim = map_of (payload self) claim) \<and>
      map_of (payload access) ''jti'' = Some (PyStr uuid4_hex) \<and>
      map_of (payload access) ''exp'' =
        Some (PyInt (datetime_to_epoch (current_time self + ACCESS_TOKEN_LIFETIME st))) \<and>
      (TOKEN_TYPE_CLAIM st \<notin> {''exp'', ''jti''} \<longrightarrow>
         map_of (payload access) (TOKEN_TYPE_CLAIM st) = Some (PyStr ''access''))"
  unfolding access_token_unfold
  by (auto simp: copy_claims_skipped copy_claims_copied [OF assms] no_copy_claims_def
      update_conv' split: option.splits)

theorem access_token_copies_claims_witness:
  "distinct (map fst (payload example_refresh)) \<and>
   access_token example_settings example_decode 86101000000 hex_cd example_refresh =
     Inr (example_refresh, example_access) \<and>
   map_of (payload example_access) ''user_id'' = map_of (payload example_refresh) ''user_id'' \<and>
   map_of (payload example_access) ''jti'' = Some (PyStr hex_cd) \<and>
   map_of (payload example_access) ''token_type'' = Some (PyStr ''access'')"
proof -
  have d: "distinct (map fst (payload example_refresh))"
    by (simp add: example_refresh_def)
  from access_token_copies_claims [OF d, of example_settings example_decode 86101000000 "hex_cd"]
  show ?thesis
    using d by (auto simp: example_access_derived example_settings_simps)
qed

section \<open>Tokens for a user\<close>

text \<open>
  Claim C9. Let \<open>cls_call\<close>, the call \<^verbatim>\<open>cls()\<close> of the variant, return the fresh token
  \<open>fresh\<close>, and let the user have the identifier \<open>user_id\<close> in the configured field. Then
  \<^const>\<open>for_user\<close> returns a token whose user-id claim is \<open>user_id\<close> itself when it is an
  integer and its text otherwise (so \<open>42\<close> stays \<open>42\<close> and \<open>alice\<close> stays \<open>alice\<close>);
  every other claim, and every other attribute, is that of \<open>fresh\<close>. The override of the
  blacklist mixin, when it returns, returns this same token.
\<close>

theorem for_user_sets_user_id:
  assumes "user (USER_ID_FIELD st) = Some user_id" and "cls_call = Inr fresh"
  shows "\<exists>tok. for_user st cls_call user = Inr tok \<and>
      map_of (payload tok) (USER_ID_CLAIM st) =
        Some (if isinstance_int user_id then user_id else PyStr (text_type user_id)) \<and>
      (\<forall>claim. claim \<noteq> USER_ID_CLAIM st \<longrightarrow>
         map_of (payload tok) claim = map_of (payload fresh) claim) \<and>
      fst ` set (payload tok) = {USER_ID_CLAIM st} \<union> fst ` set (payload fresh) \<and>
      token_type tok = token_type fresh \<and> lifetime tok = lifetime fresh \<and>
      token tok = token fresh \<and> current_time tok = current_time fresh \<and>
      (\<forall>n. user_id = PyInt n \<longrightarrow> map_of (payload tok) (USER_ID_CLAIM st) = Some (PyInt n)) \<and>
      (\<forall>s. user_id = PyStr s \<longrightarrow> map_of (payload tok) (USER_ID_CLAIM st) = Some (PyStr s)) \<and>
      (\<forall>tok' rows'. BlacklistMixin_for_user rv encode st cls_call user rows = Inr (tok', rows')
         \<longrightarrow> tok' = tok)"
proof -
  let ?tok = "setitem fresh (USER_ID_CLAIM st)
      (if isinstance_int user_id then user_id else PyStr (text_type user_id))"
  have r: "for_user st cls_call user = Inr ?tok"
    using assms by (simp add: for_user_def)
  have m: "\<forall>tok' rows'.
      BlacklistMixin_for_user rv encode st cls_call user rows = Inr (tok', rows') \<longrightarrow> tok' = ?tok"
    unfolding BlacklistMixin_for_user_def r
    by (auto split: sum.splits if_splits)
  show ?thesis
    unfolding r using m
    by (auto simp: setitem_def update_conv' dom_update)
qed

theorem for_user_sets_user_id_witness:
  "for_user example_settings
     (AccessToken_init example_settings example_decode 86100000000 hex_ab None) example_user =
     Inr \<lparr>token_type = Some ''access'', lifetime = Some 300000000, token = None,
          current_time = 86100000000,
          payload = [(''token_type'', PyStr ''access''), (''jti'', PyStr hex_ab),
                     (''exp'', PyInt 86400), (''user_id'', PyInt 42)]\<rparr> \<and>
   for_user (example_settings\<lparr>USER_ID_FIELD := ''username''\<rparr>)
     (AccessToken_init example_settings example_decode 86100000000 hex_ab None) example_user =
     Inr \<lparr>token_type = Some ''access'', lifetime = Some 300000000, token = None,
          current_time = 86100000000,
          payload = [(''token_type'', PyStr ''access''), (''jti'', PyStr hex_ab),
                     (''exp'', PyInt 86400), (''user_id'', PyStr ''alice'')]\<rparr> \<and>
   for_user example_settings
     (RefreshToken_init example_revocation example_settings example_decode 86100000000 hex_ab
        None) example_user =
     Inr \<lparr>token_type = Some ''refresh'', lifetime = Some 86400000000, token = None,
          current_time = 86100000000,
          payload = [(''token_type'', PyStr ''refresh''), (''jti'', PyStr hex_ab),
                     (''exp'', PyInt 172500), (''user_id'', PyInt 42)]\<rparr> \<and>
   BlacklistMixin_for_user example_revocation example_encode example_settings
     (RefreshToken_init example_revocation example_settings example_decode 86100000000 hex_ab
        None) example_user [] =
     Inr (\<lparr>token_type = Some ''refresh'', lifetime = Some 86400000000, token = None,
           current_time = 86100000000,
           payload = [(''token_type'', PyStr ''refresh''), (''jti'', PyStr hex_ab),
                      (''exp'', PyInt 172500), (''user_id'', PyInt 42)]\<rparr>,
          [\<lparr>row_user = example_user, row_jti = 302240678275694148452523, row_token = ''signed'',
            created_at = 86100000000, expires_at = 172500000000\<rparr>])"
proof -
  let ?st = "example_settings\<lparr>USER_ID_FIELD := ''username''\<rparr>"
  let ?access = "AccessToken_init example_settings example_decode 86100000000 hex_ab None"
  let ?refresh = "RefreshToken_init example_revocation example_settings example_decode
      86100000000 hex_ab None"
  let ?fresh = "\<lparr>token_type = Some ''access'', lifetime = Some 300000000, token = None,
          current_time = 86100000000,
          payload = [(''token_type'', PyStr ''access''), (''jti'', PyStr hex_ab),
                     (''exp'', PyInt 86400)]\<rparr>"
  let ?fresh3 = "\<lparr>token_type = Some ''refresh'', lifetime = Some 86400000000, token = None,
          current_time = 86100000000,
          payload = [(''token_type'', PyStr ''refresh''), (''jti'', PyStr hex_ab),
                     (''exp'', PyInt 172500)]\<rparr>"
  let ?t3 = "\<lparr>token_type = Some ''refresh'', lifetime = Some 86400000000, token = None,
          current_time = 86100000000,
          payload = [(''token_type'', PyStr ''refresh''), (''jti'', PyStr hex_ab),
                     (''exp'', PyInt 172500), (''user_id'', PyInt 42)]\<rparr>"
  let ?rows = "[\<lparr>row_user = example_user, row_jti = 302240678275694148452523,
            row_token = ''signed'', created_at = 86100000000, expires_at = 172500000000\<rparr>]"
  have f: "?access = Inr ?fresh"
    by (simp add: AccessToken_init_def Token_init_fresh [OF example_class_simps(1,2)]
        example_settings_simps datetime_to_epoch_def)
  have f3: "?refresh = Inr ?fresh3"
    by (simp add: RefreshToken_init_def BlacklistMixin_init_fresh
        Token_init_fresh [OF example_class_simps(3,4)] example_settings_simps
        datetime_to_epoch_def)
  have u: "example_user (USER_ID_FIELD example_settings) = Some (PyInt 42)"
    "example_user (USER_ID_FIELD ?st) = Some (PyStr ''alice'')"
    by (simp_all add: example_user_def example_settings_simps)
  have c: "USER_ID_CLAIM example_settings = ''user_id''" "USER_ID_CLAIM ?st = ''user_id''"
    by (simp_all add: example_settings_simps)
  have b: "BlacklistMixin_for_user example_revocation example_encode example_settings
     ?refresh example_user [] = Inr (?t3, ?rows)"
    unfolding BlacklistMixin_for_user_def f3 for_user_def u c
    by (simp add: setitem_def getitem_def example_revocation_def example_UUID_simps
        example_encode_def objects_create_def)
  from for_user_sets_user_id [where st = example_settings and user = example_user
      and rv = example_revocation and encode = example_encode and rows = "[]", OF u(1) f]
  obtain t1 where t1: "for_user example_settings ?access example_user = Inr t1"
    and v1': "\<forall>n. PyInt 42 = PyInt n \<longrightarrow>
      map_of (payload t1) (USER_ID_CLAIM example_settings) = Some (PyInt n)"
    by (elim exE conjE) (rule that; assumption)
  from v1' have v1: "map_of (payload t1) (USER_ID_CLAIM example_settings) = Some (PyInt 42)"
    by simp
  from for_user_sets_user_id [where st = ?st and user = example_user
      and rv = example_revocation and encode = example_encode and rows = "[]", OF u(2) f]
  obtain t2 where t2: "for_user ?st ?access example_user = Inr t2"
    and v2': "\<forall>s. PyStr ''alice'' = PyStr s \<longrightarrow>
      map_of (payload t2) (USER_ID_CLAIM ?st) = Some (PyStr s)"
    by (elim exE conjE) (rule that; assumption)
  from v2' have v2: "map_of (payload t2) (USER_ID_CLAIM ?st) = Some (PyStr ''alice'')"
    by simp
  from for_user_sets_user_id [where st = example_settings and user = example_user
      and rv = example_revocation and encode = example_encode and rows = "[]", OF u(1) f3]
  obtain t3 where t3: "for_user example_settings ?refresh example_user = Inr t3"
    and v3: "\<forall>tok' rows'. BlacklistMixin_for_user example_revocation example_encode
      example_settings ?refresh example_user [] = Inr (tok', rows') \<longrightarrow> tok' = t3"
    by (elim exE conjE) (rule that; assumption)
  have e1: "t1 = \<lparr>token_type = Some ''access'', lifetime = Some 300000000, token = None,
          current_time = 86100000000,
          payload = [(''token_type'', PyStr ''access''), (''jti'', PyStr hex_ab),
                     (''exp'', PyInt 86400), (''user_id'', PyInt 42)]\<rparr>"
    using t1 v1 unfolding f for_user_def u c by (simp add: setitem_def)
  have e2: "t2 = \<lparr>token_type = Some ''access'', lifetime = Some 300000000, token = None,
          current_time = 86100000000,
          payload = [(''token_type'', PyStr ''access''), (''jti'', PyStr hex_ab),
                     (''exp'', PyInt 86400), (''user_id'', PyStr ''alice'')]\<rparr>"
    using t2 v2 unfolding f for_user_def u c by (simp add: setitem_def)
  have e3: "t3 = ?t3"
    using v3 [rule_format, OF b] by (rule sym)
  from t1 t2 t3 b show ?thesis
    unfolding e1 e2 e3 by (intro conjI)
qed

end
